theory Spec2Isabelle
  imports Complex_Main
begin

section \<open>The index advisor of tools/index_advisor/advisor.py\<close>

text \<open>
  The advisor is a pure decision procedure: \<open>IndexAdvisor.recommend\<close> walks six rules
  and hands over to one private assembler per index family. The embedding keeps the
  source's names and the order of its statements.

  Numbers. A Python \<open>int\<close> is an \<open>int\<close>. A Python \<open>float\<close> is read as a \<open>real\<close>:
  the arithmetic is exact, so IEEE rounding, overflow, infinities and NaN are outside
  the model. \<open>int(x)\<close> on a float truncates towards zero (\<open>py_int\<close>).

  Exceptions. \<open>math.sqrt\<close> raises \<open>ValueError\<close> below zero and \<open>math.log10\<close> at or
  below zero. \<open>_recommend_hnsw\<close> and \<open>_recommend_ivf_flat\<close> call each other; the
  interpreter bounds the depth of the call stack and raises \<open>RecursionError\<close> when the
  bound is reached. The bound is the first argument (\<open>depth\<close>) of the two functions and
  of \<open>recommend\<close>, which passes it on; every property below holds for every bound.
\<close>

subsection \<open>Data model\<close>

datatype IndexType =
  FLAT | HNSW | IVF_FLAT | IVF_SQ8 | IVF_PQ | DISK_ANN | GPU_IVF_FLAT | GPU_IVF_PQ

datatype error = RecursionError | ValueError

text \<open>
  A \<open>reason\<close> is a literal or an f-string. An f-string is kept as its template together
  with the values it interpolates (\<open>{:,}\<close> an integer with thousands separators,
  \<open>{:.1f}\<close> a float with one decimal); the rendering to characters is not modelled.
\<close>

datatype fmt_arg = IntArg int | FloatArg real

type_synonym reason_text = "string \<times> fmt_arg list"

type_synonym param_dict = "string \<rightharpoonup> int"

datatype Recommendation = Recommendation
  (index_type: IndexType)
  (params: param_dict)
  (memory_gb: real)
  (build_time_min: real)
  (query_latency_p95: real)
  (recall_at_10: real)
  (reason: reason_text)
  (confidence: real)
  (alternatives: "Recommendation list")

subsection \<open>Library functions of Python\<close>

definition py_int :: "real \<Rightarrow> int" where
  "py_int x = (if 0 \<le> x then \<lfloor>x\<rfloor> else \<lceil>x\<rceil>)"

definition math_sqrt :: "int \<Rightarrow> error + real" where
  "math_sqrt n = (if n < 0 then Inl ValueError else Inr (sqrt (real_of_int n)))"

definition math_log10 :: "int \<Rightarrow> error + real" where
  "math_log10 n = (if n \<le> 0 then Inl ValueError else Inr (log 10 (real_of_int n)))"

definition dict_get :: "param_dict \<Rightarrow> string \<Rightarrow> int \<Rightarrow> int" where
  "dict_get d k dflt = (case d k of None \<Rightarrow> dflt | Some v \<Rightarrow> v)"

subsection \<open>Helper methods\<close>

definition calculate_hnsw_m :: "int \<Rightarrow> int" where
  "calculate_hnsw_m num_vectors =
     (if num_vectors < 100000 then 8
      else if num_vectors < 1000000 then 16
      else if num_vectors < 10000000 then 24
      else 32)"

text \<open>The \<open>for\<close> loop returns at the first candidate that divides; \<open>find\<close> does the same.\<close>

definition calculate_pq_m :: "int \<Rightarrow> int" where
  "calculate_pq_m dimensions =
     (case find (\<lambda>m. dimensions mod m = 0) [32, 16, 8, 4] of
        Some m \<Rightarrow> m
      | None \<Rightarrow> 8)"

definition estimate_hnsw_memory :: "int \<Rightarrow> int \<Rightarrow> int \<Rightarrow> real" where
  "estimate_hnsw_memory num_vectors dimensions M =
     (let bytes_per_vector = real_of_int (dimensions * 4) + real_of_int (M * 2) * 1.2;
          total_bytes = real_of_int num_vectors * bytes_per_vector
      in total_bytes / (1024 ^ 3))"

text \<open>
  The parameter \<open>M\<close> of \<open>_estimate_hnsw_memory\<close> has the default value 16. A call that
  leaves it out, as \<open>recommend\<close> does, is a call of \<open>estimate_hnsw_memory_default\<close>.
\<close>

definition estimate_hnsw_memory_default :: "int \<Rightarrow> int \<Rightarrow> real" where
  "estimate_hnsw_memory_default num_vectors dimensions =
     estimate_hnsw_memory num_vectors dimensions 16"

definition estimate_build_time :: "int \<Rightarrow> int \<Rightarrow> string \<Rightarrow> param_dict \<Rightarrow> real" where
  "estimate_build_time num_vectors dimensions index_type_name ps =
     (let base_time = real_of_int num_vectors / 100000
      in if index_type_name = ''HNSW'' then
           base_time * 3 * (real_of_int (dict_get ps ''M'' 16) / 16)
         else if index_type_name = ''IVF_FLAT'' then base_time * 2
         else if index_type_name = ''IVF_PQ'' then base_time * 3
         else base_time)"

definition estimate_latency :: "int \<Rightarrow> string \<Rightarrow> param_dict \<Rightarrow> error + real" where
  "estimate_latency num_vectors index_type_name ps =
     (if index_type_name = ''HNSW'' then
        (let ef = dict_get ps ''ef'' 64
         in case math_log10 num_vectors of
              Inl e \<Rightarrow> Inl e
            | Inr l \<Rightarrow> Inr (10 + l * 5 + (real_of_int ef / 64) * 10))
      else if index_type_name = ''IVF_FLAT'' then
        (let nprobe = dict_get ps ''nprobe'' 32
         in Inr (15 + (real_of_int nprobe / 32) * 20))
      else Inr 20)"

subsection \<open>Assemblers without recursion\<close>

definition recommend_flat :: "int \<Rightarrow> int \<Rightarrow> Recommendation" where
  "recommend_flat num_vectors dimensions =
     (let memory_gb = real_of_int (num_vectors * dimensions * 4) / (1024 ^ 3);
          build_time_min = 0.1;
          latency_p95 = 5;
          recall = 1.0
      in Recommendation FLAT Map.empty memory_gb build_time_min latency_p95 recall
           (''Small dataset ({:,} vectors) - brute force optimal'', [IntArg num_vectors])
           0.99 [])"

definition recommend_diskann :: "int \<Rightarrow> int \<Rightarrow> real \<Rightarrow> Recommendation" where
  "recommend_diskann num_vectors dimensions latency_requirement_ms =
     (let search_list_size = py_int (latency_requirement_ms / 2);
          memory_gb = real_of_int (num_vectors * 100) / (1024 ^ 3);
          build_time_min = real_of_int num_vectors / 50000 * 5;
          latency_p95 = latency_requirement_ms * 1.5;
          recall = 0.92
      in Recommendation DISK_ANN [''search_list_size'' \<mapsto> search_list_size]
           memory_gb build_time_min latency_p95 recall
           (''Billion-scale dataset ({:,} vectors)'', [IntArg num_vectors])
           0.90 [])"

definition recommend_ivf_sq8 :: "int \<Rightarrow> int \<Rightarrow> error + Recommendation" where
  "recommend_ivf_sq8 num_vectors dimensions =
     (case math_sqrt num_vectors of
        Inl e \<Rightarrow> Inl e
      | Inr s \<Rightarrow>
          (let nlist = py_int s
           in Inr (Recommendation IVF_SQ8
                [''nlist'' \<mapsto> nlist, ''nprobe'' \<mapsto> max 16 (py_int (real_of_int nlist * 0.1))]
                (real_of_int (num_vectors * dimensions * 4) / (1024 ^ 3) * 0.6)
                (real_of_int num_vectors / 90000 * 2.5)
                (12 + (real_of_int num_vectors / 1000000) * 5.5)
                0.95
                (''Good balance of memory and accuracy'', [])
                0.87 [])))"

definition recommend_gpu_ivf :: "int \<Rightarrow> int \<Rightarrow> real \<Rightarrow> error + Recommendation" where
  "recommend_gpu_ivf num_vectors dimensions memory_budget_gb =
     (case math_sqrt num_vectors of
        Inl e \<Rightarrow> Inl e
      | Inr s \<Rightarrow>
          Inr (Recommendation GPU_IVF_FLAT
            [''nlist'' \<mapsto> py_int s, ''nprobe'' \<mapsto> 64]
            (real_of_int (num_vectors * dimensions * 4) / (1024 ^ 3) * 1.2)
            (real_of_int num_vectors / 500000)
            5
            0.98
            (''High QPS requirement with GPU available'', [])
            0.91 []))"

definition recommend_ivf_pq :: "int \<Rightarrow> int \<Rightarrow> error + Recommendation" where
  "recommend_ivf_pq num_vectors dimensions =
     (case math_sqrt num_vectors of
        Inl e \<Rightarrow> Inl e
      | Inr s \<Rightarrow>
          (let nlist = py_int s;
               nlist = max 128 (min nlist 16384);
               m = calculate_pq_m dimensions;
               nbits = 8;
               nprobe = max 32 (py_int (real_of_int nlist * 0.15));
               memory_gb = real_of_int (num_vectors * dimensions * 4) / (1024 ^ 3) * 0.25;
               build_time_min = real_of_int num_vectors / 80000 * 3;
               latency_p95 = 15 + (real_of_int num_vectors / 1000000) * 6;
               recall = 0.90
           in case recommend_ivf_sq8 num_vectors dimensions of
                Inl e \<Rightarrow> Inl e
              | Inr alt1 \<Rightarrow>
                  Inr (Recommendation IVF_PQ
                    [''nlist'' \<mapsto> nlist, ''m'' \<mapsto> m, ''nbits'' \<mapsto> nbits, ''nprobe'' \<mapsto> nprobe]
                    memory_gb build_time_min latency_p95 recall
                    (''Memory budget ({:.1f}GB) requires compression'', [FloatArg memory_gb])
                    0.85
                    [alt1, recommend_diskann num_vectors dimensions 100])))"

subsection \<open>The two assemblers that call each other\<close>

text \<open>
  Each of the two computes its own fields first and its alternatives afterwards, and the
  fields do not read the alternatives. \<open>hnsw_body\<close> and \<open>ivf_flat_body\<close> are the
  \<open>Recommendation\<close> that the \<open>return\<close> statement constructs, as a function of the values
  computed before it: the latency (HNSW), the square root (IVF_FLAT) and the list of
  alternatives.
\<close>

definition hnsw_body :: "int \<Rightarrow> int \<Rightarrow> real \<Rightarrow> Recommendation list \<Rightarrow> Recommendation" where
  "hnsw_body num_vectors dimensions latency_p95 alts =
     (let M = calculate_hnsw_m num_vectors;
          ef_construction = M * 15;
          ef = M * 4;
          memory_gb = estimate_hnsw_memory num_vectors dimensions M;
          build_time_min = estimate_build_time num_vectors dimensions ''HNSW'' [''M'' \<mapsto> M];
          recall = 0.95
      in Recommendation HNSW
           [''M'' \<mapsto> M, ''efConstruction'' \<mapsto> ef_construction, ''ef'' \<mapsto> ef]
           memory_gb build_time_min latency_p95 recall
           (''Low latency requirement (<30ms) with sufficient memory'', [])
           0.92 alts)"

definition ivf_flat_body :: "int \<Rightarrow> int \<Rightarrow> real \<Rightarrow> Recommendation list \<Rightarrow> Recommendation" where
  "ivf_flat_body num_vectors dimensions s alts =
     (let nlist = py_int s;
          nlist = max 128 (min nlist 16384);
          nprobe = max 16 (py_int (real_of_int nlist * 0.1));
          memory_gb = real_of_int (num_vectors * dimensions * 4) / (1024 ^ 3) * 1.1;
          build_time_min = real_of_int num_vectors / 100000 * 2;
          latency_p95 = 10 + (real_of_int num_vectors / 1000000) * 5;
          recall = 0.98
      in Recommendation IVF_FLAT
           [''nlist'' \<mapsto> nlist, ''nprobe'' \<mapsto> nprobe]
           memory_gb build_time_min latency_p95 recall
           (''Balanced performance and memory usage'', [])
           0.88 alts)"

fun recommend_hnsw :: "nat \<Rightarrow> int \<Rightarrow> int \<Rightarrow> error + Recommendation"
  and recommend_ivf_flat :: "nat \<Rightarrow> int \<Rightarrow> int \<Rightarrow> error + Recommendation" where
  "recommend_hnsw 0 num_vectors dimensions = Inl RecursionError"
| "recommend_hnsw (Suc depth) num_vectors dimensions =
     (case estimate_latency num_vectors ''HNSW''
             [''ef'' \<mapsto> calculate_hnsw_m num_vectors * 4] of
        Inl e \<Rightarrow> Inl e
      | Inr latency_p95 \<Rightarrow>
          (case recommend_ivf_flat depth num_vectors dimensions of
             Inl e \<Rightarrow> Inl e
           | Inr alt1 \<Rightarrow>
               Inr (hnsw_body num_vectors dimensions latency_p95
                      [alt1, recommend_diskann num_vectors dimensions 100])))"
| "recommend_ivf_flat 0 num_vectors dimensions = Inl RecursionError"
| "recommend_ivf_flat (Suc depth) num_vectors dimensions =
     (case math_sqrt num_vectors of
        Inl e \<Rightarrow> Inl e
      | Inr s \<Rightarrow>
          (case recommend_hnsw depth num_vectors dimensions of
             Inl e \<Rightarrow> Inl e
           | Inr alt1 \<Rightarrow>
               (case recommend_ivf_sq8 num_vectors dimensions of
                  Inl e \<Rightarrow> Inl e
                | Inr alt2 \<Rightarrow>
                    Inr (ivf_flat_body num_vectors dimensions s [alt1, alt2]))))"

subsection \<open>The decision tree\<close>

definition recommend ::
  "nat \<Rightarrow> int \<Rightarrow> int \<Rightarrow> real \<Rightarrow> real \<Rightarrow> int \<Rightarrow> string \<Rightarrow> bool \<Rightarrow> error + Recommendation" where
  "recommend depth num_vectors dimensions latency_requirement_ms memory_budget_gb
             qps_target use_case has_gpu =
     (if num_vectors < 10000 then Inr (recommend_flat num_vectors dimensions)
      else if num_vectors > 100000000 then
        Inr (recommend_diskann num_vectors dimensions latency_requirement_ms)
      else
        (let hnsw_memory = estimate_hnsw_memory_default num_vectors dimensions
         in if latency_requirement_ms < 30 \<and> hnsw_memory < memory_budget_gb * 0.8 then
              recommend_hnsw depth num_vectors dimensions
            else if qps_target > 5000 \<and> has_gpu then
              recommend_gpu_ivf num_vectors dimensions memory_budget_gb
            else if memory_budget_gb < hnsw_memory * 0.5 then
              recommend_ivf_pq num_vectors dimensions
            else if memory_budget_gb < hnsw_memory * 0.7 then
              recommend_ivf_sq8 num_vectors dimensions
            else recommend_ivf_flat depth num_vectors dimensions))"

subsection \<open>The rule chain as the specification words it\<close>

text \<open>
  The specification describes the decision procedure as six ordered rules, each a
  condition with an outcome, of which the first that matches wins. \<open>rule_chain\<close> is that
  list, written from the specification and not from the code; the value of the HNSW
  memory probe is its first argument. \<open>select\<close> is the outcome of the first matching rule.
\<close>

definition rule_chain ::
  "real \<Rightarrow> int \<Rightarrow> real \<Rightarrow> real \<Rightarrow> int \<Rightarrow> bool \<Rightarrow> (bool \<times> IndexType) list" where
  "rule_chain probe num_vectors latency_requirement_ms memory_budget_gb qps_target has_gpu =
     [(num_vectors < 10000, FLAT),
      (num_vectors > 100000000, DISK_ANN),
      (latency_requirement_ms < 30 \<and> probe < 0.8 * memory_budget_gb, HNSW),
      (qps_target > 5000 \<and> has_gpu, GPU_IVF_FLAT),
      (memory_budget_gb < 0.5 * probe, IVF_PQ),
      (True, if memory_budget_gb < 0.7 * probe then IVF_SQ8 else IVF_FLAT)]"

definition first_match :: "(bool \<times> IndexType) list \<Rightarrow> IndexType option" where
  "first_match rules = map_option snd (find fst rules)"

definition select :: "real \<Rightarrow> int \<Rightarrow> real \<Rightarrow> real \<Rightarrow> int \<Rightarrow> bool \<Rightarrow> IndexType option" where
  "select probe num_vectors latency_requirement_ms memory_budget_gb qps_target has_gpu =
     first_match (rule_chain probe num_vectors latency_requirement_ms memory_budget_gb
                    qps_target has_gpu)"

text \<open>Reading one parameter, or one estimate, off the result of an assembler.\<close>

definition result_param :: "error + Recommendation \<Rightarrow> string \<Rightarrow> int option" where
  "result_param res k = (case res of Inl e \<Rightarrow> None | Inr r \<Rightarrow> params r k)"

definition result_family :: "error + Recommendation \<Rightarrow> IndexType option" where
  "result_family res = (case res of Inl e \<Rightarrow> None | Inr r \<Rightarrow> Some (index_type r))"

definition result_build_time :: "error + Recommendation \<Rightarrow> real option" where
  "result_build_time res = (case res of Inl e \<Rightarrow> None | Inr r \<Rightarrow> Some (build_time_min r))"

section \<open>Properties\<close>

subsection \<open>Truncation and square roots\<close>

lemma py_int_sqrt:
  assumes "0 \<le> k" "k * k \<le> n" "n < (k + 1) * (k + 1)"
  shows "py_int (sqrt (real_of_int n)) = k"
proof -
  have "0 \<le> k * k" by (rule zero_le_square)
  then have n0: "0 \<le> n" using assms(2) by linarith
  have lo: "real_of_int k \<le> sqrt (real_of_int n)"
  proof (rule real_le_rsqrt)
    have "real_of_int (k * k) \<le> real_of_int n" using assms(2) by (simp only: of_int_le_iff)
    then show "(real_of_int k)\<^sup>2 \<le> real_of_int n" by (simp add: power2_eq_square)
  qed
  have hi: "sqrt (real_of_int n) < real_of_int (k + 1)"
  proof (rule real_less_lsqrt)
    show "0 \<le> real_of_int (k + 1)" using assms(1) by simp
    have "real_of_int n < real_of_int ((k + 1) * (k + 1))" using assms(3) by (simp only: of_int_less_iff)
    then show "real_of_int n < (real_of_int (k + 1))\<^sup>2" by (simp add: power2_eq_square)
  qed
  have "\<lfloor>sqrt (real_of_int n)\<rfloor> = k"
    using lo hi by (simp add: floor_eq_iff)
  moreover have "0 \<le> sqrt (real_of_int n)" using n0 by simp
  ultimately show ?thesis by (simp add: py_int_def)
qed



subsection \<open>The mutual recursion of the HNSW and IVF_FLAT assemblers\<close>

text \<open>
  \<open>_recommend_hnsw\<close> builds its first alternative with \<open>_recommend_ivf_flat\<close>, which builds
  its first alternative with \<open>_recommend_hnsw\<close>, on the same arguments. Neither call has a
  base case, so neither function returns a \<open>Recommendation\<close>, at any depth of the stack.
\<close>

lemma mutual_recursion_never_returns:
  "recommend_hnsw depth nv d \<noteq> Inr r \<and> recommend_ivf_flat depth nv d \<noteq> Inr r"
proof (induction depth arbitrary: r)
  case 0
  show ?case by simp
next
  case (Suc depth)
  then show ?case by (auto split: sum.splits)
qed

lemma mutual_recursion_RecursionError:
  "0 < nv \<Longrightarrow> recommend_hnsw depth nv d = Inl RecursionError \<and> recommend_ivf_flat depth nv d = Inl RecursionError"
proof (induction depth)
  case 0
  show ?case by simp
next
  case (Suc depth)
  then show ?case by (simp add: estimate_latency_def math_log10_def math_sqrt_def)
qed

lemma recommend_flat_family: "index_type (recommend_flat nv d) = FLAT"
  by (simp add: recommend_flat_def)

lemma recommend_diskann_family: "index_type (recommend_diskann nv d lat) = DISK_ANN"
  by (simp add: recommend_diskann_def Let_def)

lemma recommend_ivf_sq8_family: "recommend_ivf_sq8 nv d = Inr r \<Longrightarrow> index_type r = IVF_SQ8"
  by (auto simp: recommend_ivf_sq8_def Let_def split: sum.splits)

lemma recommend_gpu_ivf_family: "recommend_gpu_ivf nv d mem = Inr r \<Longrightarrow> index_type r = GPU_IVF_FLAT"
  by (auto simp: recommend_gpu_ivf_def split: sum.splits)

lemma recommend_ivf_pq_family: "recommend_ivf_pq nv d = Inr r \<Longrightarrow> index_type r = IVF_PQ"
  by (auto simp: recommend_ivf_pq_def Let_def split: sum.splits)

lemma recommend_Inr_cases:
  assumes "recommend depth nv d lat mem qps uc gpu = Inr r"
  shows "(r = recommend_flat nv d \<and> index_type r = FLAT) \<or>
         (r = recommend_diskann nv d lat \<and> index_type r = DISK_ANN) \<or>
         (recommend_gpu_ivf nv d mem = Inr r \<and> index_type r = GPU_IVF_FLAT) \<or>
         (recommend_ivf_pq nv d = Inr r \<and> index_type r = IVF_PQ) \<or>
         (recommend_ivf_sq8 nv d = Inr r \<and> index_type r = IVF_SQ8)"
  using assms
  by (auto simp: recommend_def Let_def mutual_recursion_never_returns
        recommend_flat_family recommend_diskann_family
        dest: recommend_ivf_sq8_family recommend_gpu_ivf_family recommend_ivf_pq_family
        split: if_splits)

lemma ivf_assemblers_return:
  "0 \<le> nv \<Longrightarrow>
     (\<exists>r. recommend_ivf_sq8 nv d = Inr r) \<and> (\<exists>r. recommend_gpu_ivf nv d mem = Inr r) \<and>
     (\<exists>r. recommend_ivf_pq nv d = Inr r)"
  by (simp add: recommend_ivf_sq8_def recommend_gpu_ivf_def recommend_ivf_pq_def
        math_sqrt_def Let_def)

lemma recommend_returns_iff:
  "(\<exists>r. recommend depth nv d lat mem qps uc gpu = Inr r) =
     (select (estimate_hnsw_memory_default nv d) nv lat mem qps gpu \<noteq> Some HNSW \<and>
      select (estimate_hnsw_memory_default nv d) nv lat mem qps gpu \<noteq> Some IVF_FLAT)"
proof (cases "nv < 10000")
  case True
  then show ?thesis
    by (simp add: recommend_def select_def first_match_def rule_chain_def)
next
  case False
  then have "0 \<le> nv" by simp
  from ivf_assemblers_return[OF this, of d mem] False show ?thesis
    by (auto simp: recommend_def select_def first_match_def rule_chain_def Let_def
          mutual_recursion_never_returns)
qed

lemma returned_alternatives_capped:
  assumes "recommend depth nv d lat mem qps uc gpu = Inr r"
  shows "length (alternatives r) \<le> 2 \<and>
         (\<forall>a \<in> set (alternatives r). index_type a \<noteq> index_type r \<and> alternatives a = [])"
proof -
  have sq8: "index_type a = IVF_SQ8 \<and> alternatives a = []" if "recommend_ivf_sq8 nv d = Inr a" for a
    using that by (auto simp: recommend_ivf_sq8_def Let_def split: sum.splits)
  have da: "index_type (recommend_diskann nv d l) = DISK_ANN \<and> alternatives (recommend_diskann nv d l) = []" for l
    by (simp add: recommend_diskann_def Let_def)
  have pq: "length (alternatives r) \<le> 2 \<and>
         (\<forall>a \<in> set (alternatives r). index_type a \<noteq> index_type r \<and> alternatives a = [])"
    if "recommend_ivf_pq nv d = Inr r"
    using that sq8 da by (auto simp: recommend_ivf_pq_def Let_def split: sum.splits)
  have gpu: "alternatives r = []" if "recommend_gpu_ivf nv d mem = Inr r"
    using that by (auto simp: recommend_gpu_ivf_def split: sum.splits)
  from recommend_Inr_cases[OF assms] show ?thesis
    using pq gpu sq8 da by (auto simp: recommend_flat_def)
qed

subsection \<open>Termination and the families returned\<close>

text \<open>
  C1. Claim: for every valid requirement (all numeric fields positive) \<open>recommend\<close>
  terminates and returns a \<open>Recommendation\<close> of one of the seven implemented families.
  The code does not return where rule 3 or the last branch of rule 6 is taken. At the
  specification's scenario B (500,000 vectors of 768 dimensions, 20 ms, 64 GB, 100 queries
  per second, no GPU) rule 3 selects HNSW and the call ends in \<open>RecursionError\<close>, whatever
  the bound on the stack.
\<close>

theorem recommend_scenario_B_recursion_error:
  "recommend depth 500000 768 20 64 100 ''general'' False = Inl RecursionError"
  by (simp add: recommend_def estimate_hnsw_memory_default_def estimate_hnsw_memory_def
        mutual_recursion_RecursionError)

subsection \<open>Input validation\<close>




subsection \<open>Alternatives\<close>

text \<open>
  C5. Claim: every returned \<open>Recommendation\<close> has at most two alternatives, none of the
  primary family and each without alternatives of its own; HNSW's alternatives are IVF_FLAT
  and DISK_ANN, and IVF_FLAT's are HNSW and IVF_SQ8. The code builds the IVF_FLAT alternative
  of HNSW with the full IVF_FLAT assembler, alternatives included, and the HNSW alternative
  of IVF_FLAT likewise. So the HNSW assembler ends in \<open>RecursionError\<close> (first conjunct),
  and so does \<open>recommend\<close> on an input for which it selects IVF_FLAT (second conjunct):
  neither list of alternatives is ever produced.
\<close>

theorem alternatives_recursion_unbounded:
  "recommend_hnsw depth 500000 768 = Inl RecursionError \<and>
   recommend depth 1000000 128 50 64 100 ''general'' False = Inl RecursionError"
  by (simp add: recommend_def estimate_hnsw_memory_default_def estimate_hnsw_memory_def
        mutual_recursion_RecursionError)

subsection \<open>The decision tree follows the rule chain\<close>







subsection \<open>The graph degree of the memory probe\<close>






subsection \<open>The sub-vector count of IVF_PQ\<close>

lemma finite_candidates: "finite {m \<in> {32, 16, 8, 4}. d mod m = 0}" for d :: int
  by (rule finite_Collect_conjI) simp

lemma Max_candidates:
  fixes d c :: int
  assumes "c \<in> {32, 16, 8, 4}" "d mod c = 0"
    and "\<forall>m \<in> {32, 16, 8, 4}. d mod m = 0 \<longrightarrow> m \<le> c"
  shows "Max {m \<in> {32, 16, 8, 4}. d mod m = 0} = c"
proof (rule Max_eqI)
  show "finite {m \<in> {32, 16, 8, 4}. d mod m = 0}" by (rule finite_candidates)
next
  fix y assume "y \<in> {m \<in> {32, 16, 8, 4}. d mod m = 0}"
  then have y: "y \<in> {32, 16, 8, 4} \<and> d mod y = 0" by (simp only: mem_Collect_eq)
  from assms(3) y show "y \<le> c" by (elim conjE ballE) (erule (1) mp, erule (1) notE)
next
  from assms(1,2) show "c \<in> {m \<in> {32, 16, 8, 4}. d mod m = 0}" by (simp only: mem_Collect_eq)
qed

lemma calculate_pq_m_cases:
  "calculate_pq_m d =
     (if d mod 32 = 0 then 32 else if d mod 16 = 0 then 16
      else if d mod 8 = 0 then 8 else if d mod 4 = 0 then 4 else 8)"
  by (simp add: calculate_pq_m_def)

lemma pq_largest:
  "(if \<exists>m \<in> {32, 16, 8, 4}. d mod m = 0
    then calculate_pq_m d \<in> {32, 16, 8, 4} \<and> d mod calculate_pq_m d = 0 \<and>
         (\<forall>m \<in> {32, 16, 8, 4}. d mod m = 0 \<longrightarrow> m \<le> calculate_pq_m d)
    else calculate_pq_m d = 8)"
  by (simp add: calculate_pq_m_cases)

lemma ivf_pq_m_param:
  "recommend_ivf_pq nv d = Inr r \<Longrightarrow> params r ''m'' = Some (calculate_pq_m d)"
  by (auto simp: recommend_ivf_pq_def Let_def split: sum.splits)

text \<open>
  C9. The parameter \<open>m\<close> of every IVF_PQ recommendation is \<open>calculate_pq_m dimensions\<close>,
  which is the largest of 32, 16, 8 and 4 that divides \<open>dimensions\<close> and is 8 when none of
  them does: 8 for 101 dimensions, 4 for 100.
\<close>

theorem pq_m_largest_divisor:
  "(recommend_ivf_pq nv d = Inr r \<longrightarrow> params r ''m'' = Some (calculate_pq_m d)) \<and>
   calculate_pq_m d =
     (if \<exists>m \<in> {32, 16, 8, 4}. d mod m = 0
      then Max {m \<in> {32, 16, 8, 4}. d mod m = 0} else 8) \<and>
   calculate_pq_m 101 = 8 \<and> calculate_pq_m 100 = 4"
proof (intro conjI)
  show "recommend_ivf_pq nv d = Inr r \<longrightarrow> params r ''m'' = Some (calculate_pq_m d)"
    using ivf_pq_m_param by (rule impI)
next
  show "calculate_pq_m d =
     (if \<exists>m \<in> {32, 16, 8, 4}. d mod m = 0
      then Max {m \<in> {32, 16, 8, 4}. d mod m = 0} else 8)"
  proof (cases "\<exists>m \<in> {32, 16, 8, 4}. d mod m = 0")
    case True
    have c: "calculate_pq_m d \<in> {32, 16, 8, 4} \<and> d mod calculate_pq_m d = 0 \<and>
      (\<forall>m \<in> {32, 16, 8, 4}. d mod m = 0 \<longrightarrow> m \<le> calculate_pq_m d)"
      using pq_largest[of d] unfolding if_P[OF True] .
    have "Max {m \<in> {32, 16, 8, 4}. d mod m = 0} = calculate_pq_m d"
      using c[THEN conjunct1] c[THEN conjunct2, THEN conjunct1]
        c[THEN conjunct2, THEN conjunct2]
      by (rule Max_candidates)
    then show ?thesis unfolding if_P[OF True] by (rule sym)
  next
    case False
    show ?thesis using pq_largest[of d] unfolding if_not_P[OF False] .
  qed
next
  show "calculate_pq_m 101 = 8" by (simp add: calculate_pq_m_def)
next
  show "calculate_pq_m 100 = 4" by (simp add: calculate_pq_m_def)
qed

text \<open>An IVF_PQ recommendation for 100 dimensions: 4 divides 100 and \<open>m\<close> is 4.\<close>

theorem pq_m_largest_divisor_witness:
  "result_param (recommend_ivf_pq 800000 100) ''m'' = Some 4 \<and>
   4 \<in> {m \<in> {32, 16, 8, 4}. (100::int) mod m = 0} \<and>
   Max {m \<in> {32, 16, 8, 4}. (100::int) mod m = 0} = 4"
proof -
  obtain r where r: "recommend_ivf_pq 800000 100 = Inr r"
    using ivf_assemblers_return[of 800000 100] by auto
  have ex: "\<exists>m \<in> {32, 16, 8, 4}. (100::int) mod m = 0"
    by (rule bexI[of _ 4]) simp_all
  note inst = pq_m_largest_divisor[of 800000 100 r]
  from inst r have m: "params r ''m'' = Some (calculate_pq_m 100)" by blast
  from inst have mx: "calculate_pq_m 100 = Max {m \<in> {32, 16, 8, 4}. (100::int) mod m = 0}"
    unfolding if_P[OF ex] by (elim conjE)
  from inst have v: "calculate_pq_m 100 = 4" by blast
  from m v have "params r ''m'' = Some 4" by (simp only:)
  moreover from mx v have "Max {m \<in> {32, 16, 8, 4}. (100::int) mod m = 0} = 4" by (simp only:)
  moreover have "4 \<in> {m \<in> {32, 16, 8, 4}. (100::int) mod m = 0}" by simp
  ultimately show ?thesis using r by (simp add: result_param_def)
qed

subsection \<open>Cluster count and probe count of IVF_FLAT and IVF_SQ8\<close>









subsection \<open>The latency estimate of IVF_FLAT\<close>



subsection \<open>The build time of IVF_PQ\<close>

text \<open>
  C8. Claim: the build time of an IVF_PQ recommendation is \<open>base * 3\<close> with
  \<open>base = num_vectors / 100,000\<close>. \<open>_recommend_ivf_pq\<close> does not call
  \<open>_estimate_build_time\<close>; it divides by 80,000. For 800,000 vectors of 128 dimensions, a
  latency of 50 ms and a budget of 0.1 GB \<open>recommend\<close> returns an IVF_PQ recommendation with
  a build time of 30 minutes, where the claim's formula gives 24.
\<close>

theorem ivf_pq_build_time_not_base:
  "result_family (recommend 1000 800000 128 50 0.1 100 ''general'' False) = Some IVF_PQ \<and>
   result_build_time (recommend 1000 800000 128 50 0.1 100 ''general'' False) = Some 30 \<and>
   estimate_build_time 800000 128 ''IVF_PQ'' Map.empty = 24 \<and>
   real_of_int 800000 / 100000 * 3 = 24"
  by (simp add: recommend_def estimate_hnsw_memory_default_def estimate_hnsw_memory_def
        recommend_ivf_pq_def recommend_ivf_sq8_def math_sqrt_def Let_def
        result_family_def result_build_time_def estimate_build_time_def)

lemma ivf_pq_build_time:
  "recommend_ivf_pq nv d = Inr r \<Longrightarrow> build_time_min r = real_of_int nv / 80000 * 3"
  by (auto simp: recommend_ivf_pq_def Let_def split: sum.splits)

text \<open>
  C8, as amended: the build time of every IVF_PQ recommendation, as \<open>recommend\<close> returns it
  and as \<open>_recommend_ivf_pq\<close> does, is \<open>num_vectors / 80,000 * 3\<close>;
  \<open>num_vectors / 100,000 * 3\<close> is what \<open>_estimate_build_time\<close> returns for the index type
  IVF_PQ.
\<close>

theorem ivf_pq_build_time_inline:
  "(recommend depth nv d lat mem qps uc gpu = Inr r \<and> index_type r = IVF_PQ \<longrightarrow>
      build_time_min r = real_of_int nv / 80000 * 3) \<and>
   (recommend_ivf_pq nv d = Inr r \<longrightarrow> build_time_min r = real_of_int nv / 80000 * 3) \<and>
   estimate_build_time nv d ''IVF_PQ'' ps = real_of_int nv / 100000 * 3"
proof (intro conjI impI)
  assume a: "recommend depth nv d lat mem qps uc gpu = Inr r \<and> index_type r = IVF_PQ"
  with recommend_Inr_cases[of depth nv d lat mem qps uc gpu r]
  have "recommend_ivf_pq nv d = Inr r" by auto
  then show "build_time_min r = real_of_int nv / 80000 * 3" by (rule ivf_pq_build_time)
next
  assume "recommend_ivf_pq nv d = Inr r"
  then show "build_time_min r = real_of_int nv / 80000 * 3" by (rule ivf_pq_build_time)
next
  show "estimate_build_time nv d ''IVF_PQ'' ps = real_of_int nv / 100000 * 3"
    by (simp add: estimate_build_time_def)
qed

text \<open>The same input: 800,000 vectors, 30 minutes.\<close>

theorem ivf_pq_build_time_inline_witness:
  "result_family (recommend 1000 800000 128 50 0.1 100 ''general'' False) = Some IVF_PQ \<and>
   result_build_time (recommend 1000 800000 128 50 0.1 100 ''general'' False)
     = Some (real_of_int 800000 / 80000 * 3) \<and>
   result_build_time (recommend_ivf_pq 800000 128) = Some (real_of_int 800000 / 80000 * 3)"
proof -
  have sel: "recommend 1000 800000 128 50 0.1 100 ''general'' False = recommend_ivf_pq 800000 128"
    by (simp add: recommend_def estimate_hnsw_memory_default_def estimate_hnsw_memory_def)
  obtain r where r: "recommend_ivf_pq 800000 128 = Inr r"
    using ivf_assemblers_return[of 800000 128] by auto
  have f: "index_type r = IVF_PQ" using r by (rule recommend_ivf_pq_family)
  note inst = ivf_pq_build_time_inline[of 1000 800000 128 50 "0.1" 100 "''general''" False r]
  from inst sel r f have "build_time_min r = real_of_int 800000 / 80000 * 3" by blast
  with sel r f show ?thesis by (simp add: result_family_def result_build_time_def)
qed

subsection \<open>GPU_IVF_FLAT does not read the memory budget\<close>

text \<open>
  C10. Two calls of \<open>recommend\<close> that differ in \<open>memory_budget_gb\<close> only and both return a
  GPU_IVF_FLAT recommendation return the same \<open>Recommendation\<close>: parameters, estimates,
  reason and confidence are equal.
\<close>

theorem gpu_ivf_ignores_memory_budget:
  assumes "recommend depth nv d lat m1 qps uc gpu = Inr r1" "index_type r1 = GPU_IVF_FLAT"
    and "recommend depth nv d lat m2 qps uc gpu = Inr r2" "index_type r2 = GPU_IVF_FLAT"
  shows "r1 = r2"
proof -
  from recommend_Inr_cases[OF assms(1)] assms(2)
  have g1: "recommend_gpu_ivf nv d m1 = Inr r1" by auto
  from recommend_Inr_cases[OF assms(3)] assms(4)
  have g2: "recommend_gpu_ivf nv d m2 = Inr r2" by auto
  have "recommend_gpu_ivf nv d m1 = recommend_gpu_ivf nv d m2"
    by (simp add: recommend_gpu_ivf_def)
  with g1 g2 show ?thesis by simp
qed

lemmas sq2m = py_int_sqrt[of 1414 2000000, simplified]

lemma scenario_D:
  "recommend 1000 2000000 768 50 mem 8000 ''general'' True =
     Inr (Recommendation GPU_IVF_FLAT [''nlist'' \<mapsto> 1414, ''nprobe'' \<mapsto> 64]
            (2000000 * 768 * 4 / 1024 ^ 3 * 1.2) 4 5 0.98
            (''High QPS requirement with GPU available'', []) 0.91 [])"
  by (simp add: recommend_def estimate_hnsw_memory_default_def estimate_hnsw_memory_def
        recommend_gpu_ivf_def math_sqrt_def sq2m)

text \<open>
  The specification's scenario D (two million vectors of 768 dimensions, 50 ms, 8,000
  queries per second, a GPU) with budgets of 64 GB and of 32 GB.
\<close>

theorem gpu_ivf_ignores_memory_budget_witness:
  "recommend 1000 2000000 768 50 64 8000 ''general'' True =
     recommend 1000 2000000 768 50 32 8000 ''general'' True \<and>
   result_family (recommend 1000 2000000 768 50 64 8000 ''general'' True) = Some GPU_IVF_FLAT \<and>
   result_family (recommend 1000 2000000 768 50 32 8000 ''general'' True) = Some GPU_IVF_FLAT"
proof -
  obtain r1 where r1: "recommend 1000 2000000 768 50 64 8000 ''general'' True = Inr r1"
    and f1: "index_type r1 = GPU_IVF_FLAT"
    by (simp add: scenario_D)
  obtain r2 where r2: "recommend 1000 2000000 768 50 32 8000 ''general'' True = Inr r2"
    and f2: "index_type r2 = GPU_IVF_FLAT"
    by (simp add: scenario_D)
  from gpu_ivf_ignores_memory_budget[OF r1 f1 r2 f2] have "r1 = r2" .
  with r1 r2 f1 f2 show ?thesis by (simp add: result_family_def)
qed

end
